theory Spec2Isabelle
  imports Complex_Main
begin

text \<open>
  A model of the proxy checker of \<open>main.py\<close>: the reading of the proxy file
  (\<open>read_proxy_file\<close>), the saving of a good proxy (\<open>save_proxy\<close>) and the retry loop
  of \<open>check_proxy\<close> with its counters.  The network, the clock and the output file are
  the environment: each attempt is given what they answer, and the model records what
  the call does to them as a trace of events.  One call of \<open>check_proxy\<close> is followed
  from its start to its end; how the event loop interleaves several calls is not
  modelled.
\<close>

section \<open>Python strings\<close>

text \<open>
  A Python \<open>str\<close> is modelled as a \<open>string\<close>; each character stands for the code point
  of the same number (code points below 256).  \<open>str.strip()\<close> without argument removes
  leading and trailing whitespace; below 256 Python's whitespace characters are the code
  points 9 to 13, 28 to 32, 133 and 160.
\<close>

definition py_isspace :: "char \<Rightarrow> bool" where
  "py_isspace c \<longleftrightarrow>
     c \<in> set [CHR 0x09, CHR 0x0A, CHR 0x0B, CHR 0x0C, CHR 0x0D,
              CHR 0x1C, CHR 0x1D, CHR 0x1E, CHR 0x1F, CHR 0x20, CHR 0x85, CHR 0xA0]"

definition strip :: "string \<Rightarrow> string" where
  "strip s = rev (dropWhile py_isspace (rev (dropWhile py_isspace s)))"

text \<open>
  \<open>s.split(sep)\<close> for a one-character separator: the fields between the separators,
  empty fields included, so that the empty string has the one field \<open>''''\<close>.
\<close>

fun split :: "char \<Rightarrow> string \<Rightarrow> string list" where
  "split sep [] = ['''']"
| "split sep (c # cs) =
     (if c = sep then [] # split sep cs
      else (case split sep cs of
              [] \<Rightarrow> [c # []]
            | w # ws \<Rightarrow> (c # w) # ws))"

section \<open>Exceptions\<close>

text \<open>
  The exceptions of the program, with their messages where the program sets or prints
  them.  \<open>TimeoutError\<close> is \<open>asyncio.TimeoutError\<close>, \<open>ClientError\<close> is
  \<open>aiohttp.ClientError\<close> and \<open>OtherError name msg\<close> is any other subclass of
  \<open>Exception\<close>, with the name of its class.
\<close>

datatype exn =
    FileNotFoundError string
  | ValueError string
  | IndexError
  | ZeroDivisionError
  | TimeoutError
  | ClientError string
  | OtherError string string

section \<open>Reading the proxy file\<close>

text \<open>
  What opening the file at a path and iterating over it does:
  \<^item> \<open>Text lines\<close>: the file is read to its end and yields \<open>lines\<close>, each line as the
    iteration yields it (its line end included);
  \<^item> \<open>Undecodable lines msg\<close>: the iteration yields \<open>lines\<close> and then meets bytes that
    are not UTF-8: it raises \<open>UnicodeDecodeError\<close>, a subclass of \<open>ValueError\<close>, whose
    text is \<open>msg\<close>;
  \<^item> \<open>Unreadable name msg\<close>: opening or reading raises an \<open>OSError\<close> of the class
    \<open>name\<close> other than \<open>FileNotFoundError\<close> (\<open>PermissionError\<close>,
    \<open>IsADirectoryError\<close>), which no \<open>except\<close> clause of \<open>read_proxy_file\<close> catches.
  The file system is a map from paths to these; a path outside its domain is a file that
  does not exist: opening it raises \<open>FileNotFoundError\<close>.
\<close>

datatype file_contents =
    Text "string list"
  | Undecodable "string list" string
  | Unreadable string string

text \<open>
  \<open>keep_line\<close> is the body of the \<open>async for\<close> loop of \<open>read_proxy_file\<close> for one
  line: the stripped line when it is appended to \<open>proxies\<close>, \<open>None\<close> otherwise.
\<close>

definition keep_line :: "string \<Rightarrow> string option" where
  "keep_line raw =
     (let line = strip raw in
      if CHR '':'' \<in> set line then
        (let split_line = split (CHR '':'') line in
         if length split_line = 2 \<or> length split_line = 4 then Some line else None)
      else None)"

fun collect_proxies :: "string list \<Rightarrow> string list \<Rightarrow> string list" where
  "collect_proxies proxies [] = proxies"
| "collect_proxies proxies (raw # rest) =
     (case keep_line raw of
        Some line \<Rightarrow> collect_proxies (proxies @ [line]) rest
      | None \<Rightarrow> collect_proxies proxies rest)"

text \<open>
  \<open>list(set(proxies))\<close> is modelled by \<open>remdups\<close>: Python leaves the order of the
  resulting list unspecified, and the theorems below only speak about its elements, its
  length and the absence of duplicates.
\<close>

definition read_proxy_file :: "(string \<rightharpoonup> file_contents) \<Rightarrow> string \<Rightarrow> exn + string list" where
  "read_proxy_file fs filepath =
     (case fs filepath of
        None \<Rightarrow> Inl (FileNotFoundError (''The file '' @ filepath @ '' does not exist.''))
      | Some (Unreadable name msg) \<Rightarrow> Inl (OtherError name msg)
      | Some (Undecodable proxy_file msg) \<Rightarrow>
          (let proxies = collect_proxies [] proxy_file in
           Inl (ValueError (''An error occurred while reading the proxy file: '' @ msg)))
      | Some (Text proxy_file) \<Rightarrow>
          (let proxies = collect_proxies [] proxy_file in
           if proxies = [] then
             Inl (ValueError (''An error occurred while reading the proxy file: '' @
                              ''The file does not contain any valid proxies.''))
           else Inr (remdups proxies)))"

text \<open>The acceptance rule of the specification: exactly 2 or exactly 4 fields.\<close>

definition accepted :: "string \<Rightarrow> bool" where
  "accepted line \<longleftrightarrow> length (split (CHR '':'') line) \<in> {2, 4}"

definition non_blank :: "string \<Rightarrow> bool" where
  "non_blank raw \<longleftrightarrow> strip raw \<noteq> []"

section \<open>The checker\<close>

text \<open>
  The constructor's arguments never change after \<open>__init__\<close>; they are kept apart
  from the mutable fields.
\<close>

record config =
  request_timeout :: int
  max_retry :: int
  retry_delay :: int

definition default_config :: config where
  "default_config = \<lparr>request_timeout = 5, max_retry = 1, retry_delay = 3\<rparr>"

datatype aio_proxy_type = HTTP | SOCKS4 | SOCKS5

text \<open>
  What one call does to the outside world, in the order in which it does it: entering and
  leaving \<open>async with semaphore\<close>, the request through the proxy, each \<open>print\<close> (with
  the values it formats), \<open>asyncio.sleep\<close> and the \<open>title\<close> command of \<open>os.system\<close>
  (checked, good, proxies per minute).
\<close>

datatype event =
    Acquire
  | Release
  | Get aio_proxy_type string string "string option" "string option"
  | Print_success string int
  | Print_failure_status string int
  | Print_failure_timeout string int
  | Print_failure_error string exn
  | Print_failure_exception string exn
  | Print_error_saving string
  | Print_exceeded string
  | Sleep int
  | Title int int int

text \<open>
  The mutable fields of a \<open>ProxyChecker\<close>, the contents of the file at
  \<open>good_proxy_file_path\<close> (one entry for each write, empty when the checker is created)
  and the events so far.
\<close>

record checker =
  total_proxies_checked :: int
  good_proxies :: int
  proxies_checked_per_minute :: int
  good_proxy_file :: "string list"
  trace :: "event list"

definition init :: checker where
  "init = \<lparr>total_proxies_checked = 0, good_proxies = 0, proxies_checked_per_minute = 0,
            good_proxy_file = [], trace = []\<rparr>"

definition emit :: "event \<Rightarrow> checker \<Rightarrow> checker" where
  "emit e self = self\<lparr>trace := trace self @ [e]\<rparr>"

text \<open>
  What the environment decides in one attempt: the outcome of the request (a response
  with its status, or an exception), the measured response time, whether appending to
  the output file fails with an \<open>IOError\<close> (and its message), and the value
  \<open>elapsed\<close> of \<open>time.perf_counter() - start_time\<close> read in the \<open>finally\<close> block (a
  floating-point number, hence a rational number).

  Floating-point division and rounding are not modelled.  What
  \<open>round(checked / (elapsed / 60))\<close> evaluates to for a reading other than 0 is the
  field \<open>float_rate\<close>, a function of \<open>checked\<close>: it need not be the rounded exact
  quotient, and for extreme operands it is an exception (\<open>ZeroDivisionError\<close> when
  \<open>elapsed / 60\<close> underflows to 0, \<open>OverflowError\<close> when the quotient has no finite
  floating-point value).
\<close>

datatype outcome = Response int | Raised exn

record attempt =
  outcome :: outcome
  response_time :: int
  save_error :: "string option"
  elapsed :: rat
  float_rate :: "int \<Rightarrow> exn + int"

definition save_proxy :: "string option \<Rightarrow> string \<Rightarrow> checker \<Rightarrow> checker" where
  "save_proxy io proxy self =
     (case io of
        None \<Rightarrow> self\<lparr>good_proxy_file := good_proxy_file self @ [proxy @ [CHR 0x0A]]\<rparr>
      | Some e \<Rightarrow> emit (Print_error_saving e) self)"

definition select_proxy_type :: "string \<Rightarrow> aio_proxy_type option" where
  "select_proxy_type proxy_type =
     (if proxy_type \<in> set [''HTTP'', ''HTTPS''] then Some HTTP
      else if proxy_type = ''SOCKS4'' then Some SOCKS4
      else if proxy_type = ''SOCKS5'' then Some SOCKS5
      else None)"

text \<open>
  The \<open>try\<close> block of \<open>check_proxy\<close>: \<open>Inl\<close> the exception that leaves it, \<open>Inr\<close>
  when it reaches \<open>return\<close>.  The semaphore is released on both ways out of
  \<open>async with semaphore\<close>, before any handler runs.
\<close>

definition try_block :: "attempt \<Rightarrow> string \<Rightarrow> string \<Rightarrow> checker \<Rightarrow> (exn + unit) \<times> checker" where
  "try_block a proxy proxy_type self0 =
     (let self1 = emit Acquire self0;
          proxy_split = split (CHR '':'') proxy
      in if length proxy_split < 2 then (Inl IndexError, emit Release self1)
         else
           (let host = proxy_split ! 0;
                port = proxy_split ! 1;
                username = (if length proxy_split \<noteq> 4 then None else Some (proxy_split ! 2));
                password = (if length proxy_split \<noteq> 4 then None else Some (proxy_split ! 3))
            in case select_proxy_type proxy_type of
                 None \<Rightarrow> (Inl (ValueError ''Invalid proxy type''), emit Release self1)
               | Some t \<Rightarrow>
                   (let self2 = emit (Get t host port username password) self1
                    in case outcome a of
                         Raised err \<Rightarrow> (Inl err, emit Release self2)
                       | Response status \<Rightarrow>
                           (if status = 200 then
                              (let self3 = emit (Print_success proxy (response_time a)) self2;
                                   self4 = save_proxy (save_error a) proxy self3;
                                   self5 = self4\<lparr>good_proxies := good_proxies self4 + 1\<rparr>
                               in (Inr (), emit Release self5))
                            else
                              (Inr (), emit Release
                                 (emit (Print_failure_status proxy (response_time a)) self2))))))"

text \<open>
  The three \<open>except\<close> clauses, in the order of the source; the increment of
  \<open>retry_count\<close> that each of them makes is in the loop below.
\<close>

definition except_block :: "config \<Rightarrow> string \<Rightarrow> exn \<Rightarrow> checker \<Rightarrow> checker" where
  "except_block cfg proxy err self =
     (let printed =
        (case err of
           TimeoutError \<Rightarrow> Print_failure_timeout proxy (request_timeout cfg)
         | ClientError m \<Rightarrow> Print_failure_error proxy err
         | ValueError m \<Rightarrow> Print_failure_error proxy err
         | _ \<Rightarrow> Print_failure_exception proxy err)
      in emit (Sleep (retry_delay cfg)) (emit printed self))"

text \<open>
  The right-hand side of the assignment in lines 177 and 178.  For the reading 0 the
  divisor \<open>0.0 / 60\<close> is \<open>0.0\<close> and the division by it raises \<open>ZeroDivisionError\<close>; no
  test of the source comes before the division.
\<close>

definition rate :: "attempt \<Rightarrow> int \<Rightarrow> exn + int" where
  "rate a checked =
     (if elapsed a = 0 then Inl ZeroDivisionError
      else float_rate a checked)"

text \<open>
  The \<open>finally\<close> block: an exception of the division leaves it after the increment and
  before the assignment and the \<open>title\<close> command.
\<close>

definition finally_block :: "attempt \<Rightarrow> checker \<Rightarrow> exn option \<times> checker" where
  "finally_block a self0 =
     (let self1 = self0\<lparr>total_proxies_checked := total_proxies_checked self0 + 1\<rparr>
      in case rate a (total_proxies_checked self1) of
           Inl err \<Rightarrow> (Some err, self1)
         | Inr r \<Rightarrow>
             (let self2 = self1\<lparr>proxies_checked_per_minute := r\<rparr>
              in (None, emit (Title (total_proxies_checked self2) (good_proxies self2)
                                    (proxies_checked_per_minute self2)) self2)))"

text \<open>
  The \<open>while\<close> loop of \<open>check_proxy\<close> from a given \<open>retry_count\<close>; the attempt made
  at \<open>retry_count = i\<close> meets the environment \<open>env i\<close>.  The result is the exception
  that leaves \<open>check_proxy\<close>, if any, and the checker as the call leaves it.
\<close>

function check_proxy_loop ::
  "config \<Rightarrow> (nat \<Rightarrow> attempt) \<Rightarrow> string \<Rightarrow> string \<Rightarrow> nat \<Rightarrow> checker \<Rightarrow> exn option \<times> checker"
where
  "check_proxy_loop cfg env proxy proxy_type retry_count self0 =
     (if int retry_count \<le> max_retry cfg then
        (case try_block (env retry_count) proxy proxy_type self0 of
           (Inr u, self1) \<Rightarrow>
             finally_block (env retry_count) self1
         | (Inl err, self1) \<Rightarrow>
             (case finally_block (env retry_count) (except_block cfg proxy err self1) of
                (Some raised, self2) \<Rightarrow> (Some raised, self2)
              | (None, self2) \<Rightarrow>
                  check_proxy_loop cfg env proxy proxy_type (retry_count + 1) self2))
      else (None, emit (Print_exceeded proxy) self0))"
  by pat_completeness auto
termination
  by (relation "measure (\<lambda>(cfg, env, proxy, proxy_type, retry_count, self0).
                  nat (max_retry cfg + 1 - int retry_count))") auto

definition check_proxy ::
  "config \<Rightarrow> (nat \<Rightarrow> attempt) \<Rightarrow> string \<Rightarrow> string \<Rightarrow> checker \<Rightarrow> exn option \<times> checker"
where
  "check_proxy cfg env proxy proxy_type self0 = check_proxy_loop cfg env proxy proxy_type 0 self0"

section \<open>Reading a trace\<close>

text \<open>
  The request that an attempt makes through \<open>proxy\<close>, and the line that the \<open>except\<close>
  clause for the exception \<open>err\<close> prints.
\<close>

definition request_event :: "aio_proxy_type \<Rightarrow> string \<Rightarrow> event" where
  "request_event t proxy =
     (let proxy_split = split (CHR '':'') proxy
      in Get t (proxy_split ! 0) (proxy_split ! 1)
           (if length proxy_split \<noteq> 4 then None else Some (proxy_split ! 2))
           (if length proxy_split \<noteq> 4 then None else Some (proxy_split ! 3)))"

fun failure_line :: "config \<Rightarrow> string \<Rightarrow> exn \<Rightarrow> event" where
  "failure_line cfg proxy TimeoutError = Print_failure_timeout proxy (request_timeout cfg)"
| "failure_line cfg proxy (ClientError m) = Print_failure_error proxy (ClientError m)"
| "failure_line cfg proxy (ValueError m) = Print_failure_error proxy (ValueError m)"
| "failure_line cfg proxy err = Print_failure_exception proxy err"

fun is_get :: "event \<Rightarrow> bool" where
  "is_get (Get t host port username password) = True"
| "is_get e = False"

text \<open>
  Following one task through its events: whether it holds a permit of the semaphore, and
  how many of its sleeps happened while it held one.
\<close>

fun observe :: "bool \<times> nat \<Rightarrow> event \<Rightarrow> bool \<times> nat" where
  "observe (held, n) Acquire = (True, n)"
| "observe (held, n) Release = (False, n)"
| "observe (held, n) (Sleep d) = (held, if held then n + 1 else n)"
| "observe (held, n) e = (held, n)"

definition permit_held :: "event list \<Rightarrow> bool" where
  "permit_held t = fst (foldl observe (False, 0) t)"

definition sleeps_holding :: "event list \<Rightarrow> nat" where
  "sleeps_holding t = snd (foldl observe (False, 0) t)"

text \<open>
  The use of the semaphore by one task, checked event by event: \<open>None\<close> once the task
  has acquired a permit while holding one, released one without holding one, made a
  request without holding one or slept while holding one; otherwise whether it holds a
  permit now.
\<close>

fun permit_step :: "bool option \<Rightarrow> event \<Rightarrow> bool option" where
  "permit_step None e = None"
| "permit_step (Some held) Acquire = (if held then None else Some True)"
| "permit_step (Some held) Release = (if held then Some False else None)"
| "permit_step (Some held) (Sleep d) = (if held then None else Some False)"
| "permit_step (Some held) (Get t host port username password) = (if held then Some True else None)"
| "permit_step (Some held) e = Some held"

definition permit_protocol :: "event list \<Rightarrow> bool option" where
  "permit_protocol t = foldl permit_step (Some False) t"

text \<open>The events that a step from \<open>s\<close> to \<open>s'\<close> has added to the trace.\<close>

definition new_events :: "checker \<Rightarrow> checker \<Rightarrow> event list" where
  "new_events s s' = drop (length (trace s)) (trace s')"

text \<open>A \<open>title\<close> command shows the counters as the \<open>finally\<close> block leaves them.\<close>

fun title_ok :: "event \<Rightarrow> bool" where
  "title_ok (Title checked good per_minute) = (good \<le> checked)"
| "title_ok e = True"

section \<open>Sample environments\<close>

definition always :: "attempt \<Rightarrow> nat \<Rightarrow> attempt" where
  "always a i = a"

text \<open>
  With a reading of 6 seconds the divisor is \<open>0.1\<close>, and the rate of the first and of
  the second check is 10 and 20.
\<close>

definition ten_per_check :: "int \<Rightarrow> exn + int" where
  "ten_per_check checked = Inr (10 * checked)"

definition timing_out :: attempt where
  "timing_out = \<lparr>outcome = Raised TimeoutError, response_time = 0, save_error = None,
                  elapsed = 6, float_rate = ten_per_check\<rparr>"

definition responding :: "int \<Rightarrow> attempt" where
  "responding status = \<lparr>outcome = Response status, response_time = 1, save_error = None,
                         elapsed = 6, float_rate = ten_per_check\<rparr>"

definition at_time_zero :: attempt where
  "at_time_zero = \<lparr>outcome = Response 200, response_time = 0, save_error = None,
                    elapsed = 0, float_rate = ten_per_check\<rparr>"

definition sample_lines :: "string list" where
  "sample_lines = [''1.2.3.4:8080'', ''1.2.3.4:8080'', ''bad-line'', ''5.6.7.8:1080:user:pass'']"

section \<open>Splitting and stripping\<close>

lemma split_not_Nil: "split sep s \<noteq> []"
  by (induction s) (auto split: list.splits)

lemma length_split: "length (split sep s) = Suc (length (filter (\<lambda>c. c = sep) s))"
  by (induction s) (auto split: list.splits simp: split_not_Nil)

lemma sep_in_iff: "sep \<in> set s \<longleftrightarrow> 2 \<le> length (split sep s)"
  by (simp add: length_split filter_empty_conv Suc_le_eq)

lemma keep_line_accepted:
  "keep_line raw = (if accepted (strip raw) then Some (strip raw) else None)"
  by (auto simp: keep_line_def accepted_def Let_def sep_in_iff)

lemma collect_proxies_filter:
  "collect_proxies acc raws = acc @ filter accepted (map strip raws)"
  by (induction raws arbitrary: acc) (simp_all add: keep_line_accepted)

lemma accepted_non_blank: "accepted (strip raw) \<Longrightarrow> non_blank raw"
  by (auto simp: accepted_def non_blank_def)

lemma length_collect_le:
  "length (collect_proxies [] raws) \<le> length (filter non_blank raws)"
proof -
  have "length (filter accepted (map strip raws)) = length (filter (\<lambda>raw. accepted (strip raw)) raws)"
    by (simp add: filter_map comp_def)
  also have "\<dots> \<le> length (filter non_blank raws)"
    by (induction raws) (auto dest: accepted_non_blank)
  finally show ?thesis by (simp add: collect_proxies_filter)
qed

section \<open>The proxy file\<close>

lemma read_sample:
  "read_proxy_file (Map.empty(p \<mapsto> Text sample_lines)) p =
     Inr [''1.2.3.4:8080'', ''5.6.7.8:1080:user:pass'']"
  by (simp add: read_proxy_file_def sample_lines_def keep_line_def strip_def py_isspace_def)

text \<open>
  C5: \<open>read_proxy_file\<close> keeps exactly the stripped lines that split on the colon into 2
  or 4 fields and removes the duplicates: the list it returns has these lines as its
  elements, holds none of them twice and is no longer than the number of non-blank lines
  of the file.  For the four sample lines it has 2 elements.
\<close>

theorem read_proxy_file_keeps_accepted:
  "(fs filepath = Some (Text lines) \<and> read_proxy_file fs filepath = Inr proxies \<longrightarrow>
      set proxies = {strip raw |raw. raw \<in> set lines \<and> accepted (strip raw)} \<and>
      distinct proxies \<and>
      length proxies \<le> length (filter non_blank lines)) \<and>
   (\<exists>ps. read_proxy_file (Map.empty(filepath \<mapsto> Text sample_lines)) filepath = Inr ps \<and> length ps = 2)"
proof (intro conjI impI)
  assume h: "fs filepath = Some (Text lines) \<and> read_proxy_file fs filepath = Inr proxies"
  then have ps: "proxies = remdups (collect_proxies [] lines)"
    by (auto simp: read_proxy_file_def Let_def split: if_splits)
  show "set proxies = {strip raw |raw. raw \<in> set lines \<and> accepted (strip raw)}"
    unfolding ps by (auto simp: collect_proxies_filter)
  show "distinct proxies"
    unfolding ps by simp
  have "length (remdups (collect_proxies [] lines)) \<le> length (collect_proxies [] lines)"
    by (rule length_remdups_leq)
  also have "\<dots> \<le> length (filter non_blank lines)"
    by (rule length_collect_le)
  finally show "length proxies \<le> length (filter non_blank lines)"
    unfolding ps .
next
  show "\<exists>ps. read_proxy_file (Map.empty(filepath \<mapsto> Text sample_lines)) filepath = Inr ps \<and> length ps = 2"
    by (simp add: read_sample)
qed

theorem read_proxy_file_keeps_accepted_witness:
  "(Map.empty(''proxies.txt'' \<mapsto> Text sample_lines)) ''proxies.txt'' = Some (Text sample_lines) \<and>
   read_proxy_file (Map.empty(''proxies.txt'' \<mapsto> Text sample_lines)) ''proxies.txt'' =
     Inr [''1.2.3.4:8080'', ''5.6.7.8:1080:user:pass''] \<and>
   set [''1.2.3.4:8080'', ''5.6.7.8:1080:user:pass''] =
     {strip raw |raw. raw \<in> set sample_lines \<and> accepted (strip raw)} \<and>
   length [''1.2.3.4:8080'', ''5.6.7.8:1080:user:pass''] \<le> length (filter non_blank sample_lines)"
  using read_proxy_file_keeps_accepted
    [of "Map.empty(''proxies.txt'' \<mapsto> Text sample_lines)" "''proxies.txt''" sample_lines
        "[''1.2.3.4:8080'', ''5.6.7.8:1080:user:pass'']"]
  by (simp add: read_sample)

text \<open>
  C6, as stated, fails: not-found and empty-or-invalid are not the only failures, and a
  file that cannot be opened does not always give a not-found error.  A file that exists
  but may not be read raises \<open>PermissionError\<close>, and a file with a valid descriptor line
  followed by bytes that are not UTF-8 raises \<open>ValueError\<close>.
\<close>

theorem read_proxy_file_other_errors:
  "read_proxy_file
     (Map.empty(''proxies.txt'' \<mapsto>
        Unreadable ''PermissionError'' ''[Errno 13] Permission denied: proxies.txt''))
     ''proxies.txt'' =
     Inl (OtherError ''PermissionError'' ''[Errno 13] Permission denied: proxies.txt'') \<and>
   accepted (strip ''1.2.3.4:8080'') \<and>
   read_proxy_file
     (Map.empty(''proxies.txt'' \<mapsto> Undecodable [''1.2.3.4:8080''] ''invalid start byte''))
     ''proxies.txt'' =
     Inl (ValueError ''An error occurred while reading the proxy file: invalid start byte'')"
  by (simp add: read_proxy_file_def accepted_def strip_def py_isspace_def)

text \<open>
  C6, amended: \<open>read_proxy_file\<close> returns a list, which is then not empty, exactly when
  the file is read to its end without error and at least one of its lines is accepted.
  It raises \<open>FileNotFoundError\<close> when the file does not exist; \<open>ValueError\<close> when the
  file is read to its end and none of its lines is accepted; \<open>ValueError\<close> as well when
  the reading raises \<open>UnicodeDecodeError\<close>, whatever lines were read before; and any
  other error of opening or reading leaves the function as it is, not as a not-found
  error.
\<close>

theorem read_proxy_file_errors:
  "(fs filepath = None \<longrightarrow>
      read_proxy_file fs filepath =
        Inl (FileNotFoundError (''The file '' @ filepath @ '' does not exist.''))) \<and>
   (fs filepath = Some (Text lines) \<and> (\<forall>raw \<in> set lines. \<not> accepted (strip raw)) \<longrightarrow>
      read_proxy_file fs filepath =
        Inl (ValueError (''An error occurred while reading the proxy file: '' @
                         ''The file does not contain any valid proxies.''))) \<and>
   (fs filepath = Some (Text lines) \<and> (\<exists>raw \<in> set lines. accepted (strip raw)) \<longrightarrow>
      (\<exists>proxies. read_proxy_file fs filepath = Inr proxies \<and> proxies \<noteq> [])) \<and>
   (fs filepath = Some (Undecodable lines msg) \<longrightarrow>
      read_proxy_file fs filepath =
        Inl (ValueError (''An error occurred while reading the proxy file: '' @ msg))) \<and>
   (fs filepath = Some (Unreadable name msg) \<longrightarrow>
      read_proxy_file fs filepath = Inl (OtherError name msg)) \<and>
   ((\<exists>proxies. read_proxy_file fs filepath = Inr proxies) \<longleftrightarrow>
      (\<exists>read. fs filepath = Some (Text read) \<and> (\<exists>raw \<in> set read. accepted (strip raw))))"
  by (auto simp: read_proxy_file_def Let_def collect_proxies_filter filter_empty_conv
           split: option.splits file_contents.splits)

theorem read_proxy_file_errors_witness:
  "read_proxy_file Map.empty ''proxies.txt'' =
     Inl (FileNotFoundError ''The file proxies.txt does not exist.'') \<and>
   read_proxy_file (Map.empty(''proxies.txt'' \<mapsto> Text [''bad-line'', '''', ''a:b:c''])) ''proxies.txt'' =
     Inl (ValueError ''An error occurred while reading the proxy file: The file does not contain any valid proxies.'') \<and>
   (\<exists>proxies. read_proxy_file (Map.empty(''proxies.txt'' \<mapsto> Text sample_lines)) ''proxies.txt'' = Inr proxies \<and>
      proxies \<noteq> []) \<and>
   read_proxy_file (Map.empty(''proxies.txt'' \<mapsto> Undecodable sample_lines ''invalid start byte''))
       ''proxies.txt'' =
     Inl (ValueError ''An error occurred while reading the proxy file: invalid start byte'') \<and>
   read_proxy_file (Map.empty(''proxies.txt'' \<mapsto> Unreadable ''IsADirectoryError'' ''Is a directory''))
       ''proxies.txt'' =
     Inl (OtherError ''IsADirectoryError'' ''Is a directory'')"
proof -
  have a: "\<forall>raw \<in> set [''bad-line'', '''', ''a:b:c'']. \<not> accepted (strip raw)"
    by (simp add: accepted_def strip_def py_isspace_def)
  have b: "\<exists>raw \<in> set sample_lines. accepted (strip raw)"
    by (simp add: sample_lines_def accepted_def strip_def py_isspace_def)
  show ?thesis
    using read_proxy_file_errors [of Map.empty "''proxies.txt''" "[]" "''''" "''''"]
      read_proxy_file_errors [of "Map.empty(''proxies.txt'' \<mapsto> Text [''bad-line'', '''', ''a:b:c''])"
         "''proxies.txt''" "[''bad-line'', '''', ''a:b:c'']" "''''" "''''"]
      read_proxy_file_errors [of "Map.empty(''proxies.txt'' \<mapsto> Text sample_lines)"
         "''proxies.txt''" sample_lines "''''" "''''"]
      read_proxy_file_errors [of "Map.empty(''proxies.txt'' \<mapsto> Undecodable sample_lines ''invalid start byte'')"
         "''proxies.txt''" sample_lines "''invalid start byte''" "''''"]
      read_proxy_file_errors [of "Map.empty(''proxies.txt'' \<mapsto> Unreadable ''IsADirectoryError'' ''Is a directory'')"
         "''proxies.txt''" "[]" "''Is a directory''" "''IsADirectoryError''"]
      a b
    by simp
qed

section \<open>The loop of \<open>check_proxy\<close>\<close>

declare check_proxy_loop.simps [simp del]

lemma loop_exit:
  "\<not> int rc \<le> max_retry cfg \<Longrightarrow>
   check_proxy_loop cfg env proxy pt rc s = (None, emit (Print_exceeded proxy) s)"
  by (simp add: check_proxy_loop.simps)

lemma loop_return:
  "int rc \<le> max_retry cfg \<Longrightarrow> try_block (env rc) proxy pt s = (Inr u, s1) \<Longrightarrow>
   check_proxy_loop cfg env proxy pt rc s = finally_block (env rc) s1"
  by (simp add: check_proxy_loop.simps)

lemma loop_raise:
  "int rc \<le> max_retry cfg \<Longrightarrow> try_block (env rc) proxy pt s = (Inl e, s1) \<Longrightarrow>
   finally_block (env rc) (except_block cfg proxy e s1) = (Some err, s2) \<Longrightarrow>
   check_proxy_loop cfg env proxy pt rc s = (Some err, s2)"
  by (simp add: check_proxy_loop.simps)

lemma loop_retry:
  "int rc \<le> max_retry cfg \<Longrightarrow> try_block (env rc) proxy pt s = (Inl e, s1) \<Longrightarrow>
   finally_block (env rc) (except_block cfg proxy e s1) = (None, s2) \<Longrightarrow>
   check_proxy_loop cfg env proxy pt rc s = check_proxy_loop cfg env proxy pt (Suc rc) s2"
  by (simp add: check_proxy_loop.simps)

lemma loop_rule:
  assumes start: "I rc s"
    and return: "\<And>rc s u s1 z s2. I rc s \<Longrightarrow> int rc \<le> max_retry cfg \<Longrightarrow>
       try_block (env rc) proxy pt s = (Inr u, s1) \<Longrightarrow>
       finally_block (env rc) s1 = (z, s2) \<Longrightarrow> Q (z, s2)"
    and raise: "\<And>rc s e s1 err s2. I rc s \<Longrightarrow> int rc \<le> max_retry cfg \<Longrightarrow>
       try_block (env rc) proxy pt s = (Inl e, s1) \<Longrightarrow>
       finally_block (env rc) (except_block cfg proxy e s1) = (Some err, s2) \<Longrightarrow>
       Q (Some err, s2)"
    and retry: "\<And>rc s e s1 s2. I rc s \<Longrightarrow> int rc \<le> max_retry cfg \<Longrightarrow>
       try_block (env rc) proxy pt s = (Inl e, s1) \<Longrightarrow>
       finally_block (env rc) (except_block cfg proxy e s1) = (None, s2) \<Longrightarrow>
       I (Suc rc) s2"
    and exit: "\<And>rc s. I rc s \<Longrightarrow> \<not> int rc \<le> max_retry cfg \<Longrightarrow>
       Q (None, emit (Print_exceeded proxy) s)"
  shows "Q (check_proxy_loop cfg env proxy pt rc s)"
  using start
proof (induction n \<equiv> "nat (max_retry cfg + 1 - int rc)" arbitrary: rc s)
  case 0
  then have "\<not> int rc \<le> max_retry cfg" by simp
  with "0.prems" exit show ?case by (simp add: loop_exit)
next
  case (Suc n)
  then have True: "int rc \<le> max_retry cfg" by simp
  obtain r s1 where tb: "try_block (env rc) proxy pt s = (r, s1)"
    by (cases "try_block (env rc) proxy pt s")
  show ?case
  proof (cases r)
    case (Inr u)
    obtain z s2 where "finally_block (env rc) s1 = (z, s2)"
      by (cases "finally_block (env rc) s1")
    with Inr True tb Suc.prems return [of rc s u s1 z s2] show ?thesis
      by (simp add: loop_return)
  next
    case (Inl e)
    obtain z s2 where fb: "finally_block (env rc) (except_block cfg proxy e s1) = (z, s2)"
      by (cases "finally_block (env rc) (except_block cfg proxy e s1)")
    show ?thesis
    proof (cases z)
      case (Some err)
      with True tb Inl fb Suc.prems raise [of rc s e s1 err s2] show ?thesis
        by (simp add: loop_raise)
    next
      case None
      have "I (Suc rc) s2"
        using retry [of rc s e s1 s2] Suc.prems True tb Inl fb None by simp
      moreover have "n = nat (max_retry cfg + 1 - int (Suc rc))"
        using Suc.hyps(2) by simp
      ultimately have "Q (check_proxy_loop cfg env proxy pt (Suc rc) s2)"
        using Suc.hyps(1) by simp
      then show ?thesis
        using True tb Inl fb None by (simp add: loop_retry)
    qed
  qed
qed

section \<open>The blocks of one attempt\<close>

lemma finally_block_eq:
  "finally_block a s =
     (case rate a (total_proxies_checked s + 1) of
        Inl err \<Rightarrow> (Some err, s\<lparr>total_proxies_checked := total_proxies_checked s + 1\<rparr>)
      | Inr r \<Rightarrow>
          (None, s\<lparr>total_proxies_checked := total_proxies_checked s + 1,
                   proxies_checked_per_minute := r,
                   trace := trace s @ [Title (total_proxies_checked s + 1) (good_proxies s) r]\<rparr>))"
  by (simp add: finally_block_def emit_def Let_def split: sum.splits)

lemma except_block_eq:
  "except_block cfg proxy e s =
     s\<lparr>trace := trace s @ [failure_line cfg proxy e, Sleep (retry_delay cfg)]\<rparr>"
  by (cases e) (simp_all add: except_block_def emit_def)

lemma try_block_eq:
  "try_block a proxy pt s =
     (if length (split (CHR '':'') proxy) < 2 then
        (Inl IndexError, s\<lparr>trace := trace s @ [Acquire, Release]\<rparr>)
      else case select_proxy_type pt of
        None \<Rightarrow> (Inl (ValueError ''Invalid proxy type''), s\<lparr>trace := trace s @ [Acquire, Release]\<rparr>)
      | Some t \<Rightarrow>
         (case outcome a of
            Raised e \<Rightarrow> (Inl e, s\<lparr>trace := trace s @ [Acquire, request_event t proxy, Release]\<rparr>)
          | Response st \<Rightarrow>
              if st = 200 then
                (case save_error a of
                   None \<Rightarrow>
                     (Inr (), s\<lparr>good_proxies := good_proxies s + 1,
                        good_proxy_file := good_proxy_file s @ [proxy @ [CHR 0x0A]],
                        trace := trace s @ [Acquire, request_event t proxy,
                                  Print_success proxy (response_time a), Release]\<rparr>)
                 | Some m \<Rightarrow>
                     (Inr (), s\<lparr>good_proxies := good_proxies s + 1,
                        trace := trace s @ [Acquire, request_event t proxy,
                                  Print_success proxy (response_time a), Print_error_saving m, Release]\<rparr>))
              else
                (Inr (), s\<lparr>trace := trace s @ [Acquire, request_event t proxy,
                                  Print_failure_status proxy (response_time a), Release]\<rparr>)))"
  by (simp add: try_block_def emit_def Let_def save_proxy_def request_event_def
           split: option.splits outcome.splits)

lemma failure_line_cases:
  "failure_line cfg proxy e = Print_failure_timeout proxy (request_timeout cfg) \<or>
   failure_line cfg proxy e = Print_failure_error proxy e \<or>
   failure_line cfg proxy e = Print_failure_exception proxy e"
  by (cases e) simp_all

lemma failure_line_neq [simp]:
  "failure_line cfg proxy e \<noteq> Acquire" "failure_line cfg proxy e \<noteq> Release"
  "failure_line cfg proxy e \<noteq> Sleep d" "failure_line cfg proxy e \<noteq> Title c g r"
  "failure_line cfg proxy e \<noteq> Print_exceeded p" "\<not> is_get (failure_line cfg proxy e)"
  "title_ok (failure_line cfg proxy e)"
  using failure_line_cases [of cfg proxy e] by auto

lemma request_event_neq [simp]:
  "request_event t proxy \<noteq> Acquire" "request_event t proxy \<noteq> Release"
  "request_event t proxy \<noteq> Sleep d" "request_event t proxy \<noteq> Title c g r"
  "request_event t proxy \<noteq> Print_exceeded p" "is_get (request_event t proxy)"
  "title_ok (request_event t proxy)"
  by (simp_all add: request_event_def Let_def)

lemma observe_failure_line [simp]: "observe st (failure_line cfg proxy e) = st"
  using failure_line_cases [of cfg proxy e] by (cases st) auto

lemma observe_request_event [simp]: "observe st (request_event t proxy) = st"
  by (cases st) (simp add: request_event_def Let_def)

lemma try_block_acquire:
  assumes "try_block a proxy pt s = (r, s1)"
  shows "count_list (trace s1) Acquire = Suc (count_list (trace s) Acquire)"
    and "count_list (trace s1) Release = Suc (count_list (trace s) Release)"
proof -
  have s1: "s1 = snd (try_block a proxy pt s)" using assms by simp
  show "count_list (trace s1) Acquire = Suc (count_list (trace s) Acquire)"
    unfolding s1 by (simp add: try_block_eq split: option.splits outcome.splits)
  show "count_list (trace s1) Release = Suc (count_list (trace s) Release)"
    unfolding s1 by (simp add: try_block_eq split: option.splits outcome.splits)
qed

lemma finally_block_trace:
  assumes "finally_block a s = (z, s2)"
  shows "count_list (trace s2) Acquire = count_list (trace s) Acquire"
    and "count_list (trace s2) Release = count_list (trace s) Release"
    and "count_list (trace s2) (Sleep d) = count_list (trace s) (Sleep d)"
    and "count_list (trace s2) (Print_exceeded p) = count_list (trace s) (Print_exceeded p)"
    and "filter is_get (trace s2) = filter is_get (trace s)"
    and "foldl observe st (trace s2) = foldl observe st (trace s)"
    and "good_proxy_file s2 = good_proxy_file s"
    and "good_proxies s2 = good_proxies s"
    and "total_proxies_checked s2 = total_proxies_checked s + 1"
    and "z = (case rate a (total_proxies_checked s + 1) of Inl err \<Rightarrow> Some err | Inr r \<Rightarrow> None)"
proof -
  have s2: "s2 = snd (finally_block a s)" and z: "z = fst (finally_block a s)"
    using assms by simp_all
  show "count_list (trace s2) Acquire = count_list (trace s) Acquire"
    and "count_list (trace s2) Release = count_list (trace s) Release"
    and "count_list (trace s2) (Sleep d) = count_list (trace s) (Sleep d)"
    and "count_list (trace s2) (Print_exceeded p) = count_list (trace s) (Print_exceeded p)"
    and "filter is_get (trace s2) = filter is_get (trace s)"
    and "good_proxy_file s2 = good_proxy_file s"
    and "good_proxies s2 = good_proxies s"
    and "total_proxies_checked s2 = total_proxies_checked s + 1"
    unfolding s2 by (simp_all add: finally_block_eq split: sum.splits)
  show "foldl observe st (trace s2) = foldl observe st (trace s)"
    unfolding s2
    by (cases "foldl observe st (trace s)") (simp add: finally_block_eq split: sum.splits)
  show "z = (case rate a (total_proxies_checked s + 1) of Inl err \<Rightarrow> Some err | Inr r \<Rightarrow> None)"
    unfolding z by (simp add: finally_block_eq split: sum.splits)
qed

lemma except_block_trace:
  "count_list (trace (except_block cfg proxy e s)) Acquire = count_list (trace s) Acquire"
  "count_list (trace (except_block cfg proxy e s)) Release = count_list (trace s) Release"
  "count_list (trace (except_block cfg proxy e s)) (Print_exceeded p) = count_list (trace s) (Print_exceeded p)"
  "filter is_get (trace (except_block cfg proxy e s)) = filter is_get (trace s)"
  "good_proxy_file (except_block cfg proxy e s) = good_proxy_file s"
  "good_proxies (except_block cfg proxy e s) = good_proxies s"
  "total_proxies_checked (except_block cfg proxy e s) = total_proxies_checked s"
  by (simp_all add: except_block_eq)

lemma acquire_bound:
  "int (count_list (trace (snd (check_proxy cfg env proxy pt s))) Acquire)
     \<le> int (count_list (trace s) Acquire) + max 0 (max_retry cfg + 1)"
  unfolding check_proxy_def
proof (rule loop_rule [where
      I = "\<lambda>rc s'. int (count_list (trace s') Acquire) = int (count_list (trace s) Acquire) + int rc
             \<and> int rc \<le> max 0 (max_retry cfg + 1)"])
  show "int (count_list (trace s) Acquire) = int (count_list (trace s) Acquire) + int 0
          \<and> int 0 \<le> max 0 (max_retry cfg + 1)"
    by simp
qed (auto simp: except_block_trace emit_def dest!: try_block_acquire(1) finally_block_trace(1))

lemma try_block_more:
  assumes "try_block a proxy pt s = (r, s1)"
  shows "count_list (trace s1) (Sleep d) = count_list (trace s) (Sleep d)"
    and "count_list (trace s1) (Print_exceeded p) = count_list (trace s) (Print_exceeded p)"
    and "total_proxies_checked s1 = total_proxies_checked s"
    and "list_all title_ok (trace s1) = list_all title_ok (trace s)"
    and "length (filter is_get (trace s1)) \<le> Suc (length (filter is_get (trace s)))"
proof -
  have s1: "s1 = snd (try_block a proxy pt s)" using assms by simp
  show "count_list (trace s1) (Sleep d) = count_list (trace s) (Sleep d)"
    unfolding s1 by (simp add: try_block_eq split: option.splits outcome.splits)
  show "count_list (trace s1) (Print_exceeded p) = count_list (trace s) (Print_exceeded p)"
    unfolding s1 by (simp add: try_block_eq split: option.splits outcome.splits)
  show "total_proxies_checked s1 = total_proxies_checked s"
    unfolding s1 by (simp add: try_block_eq split: option.splits outcome.splits)
  show "list_all title_ok (trace s1) = list_all title_ok (trace s)"
    unfolding s1 by (simp add: try_block_eq split: option.splits outcome.splits)
  show "length (filter is_get (trace s1)) \<le> Suc (length (filter is_get (trace s)))"
    unfolding s1 by (simp add: try_block_eq split: option.splits outcome.splits)
qed

lemma try_block_observe:
  assumes "try_block a proxy pt s = (r, s1)" and "foldl observe st (trace s) = (False, n)"
  shows "foldl observe st (trace s1) = (False, n)"
proof -
  have s1: "s1 = snd (try_block a proxy pt s)" using assms by simp
  show ?thesis
    unfolding s1 using assms(2)
    by (simp add: try_block_eq split: option.splits outcome.splits)
qed

lemma try_block_Inl:
  assumes "try_block a proxy pt s = (Inl e, s1)"
  shows "good_proxies s1 = good_proxies s" and "good_proxy_file s1 = good_proxy_file s"
  using assms
  by (auto simp: try_block_eq split: if_splits option.splits outcome.splits)

lemma try_block_Inr:
  assumes "try_block a proxy pt s = (Inr u, s1)"
  shows "good_proxies s1 = good_proxies s \<or> good_proxies s1 = good_proxies s + 1"
    and "good_proxy_file s1 = good_proxy_file s \<or>
         good_proxy_file s1 = good_proxy_file s @ [proxy @ [CHR 0x0A]]"
    and "\<exists>status. outcome a = Response status"
  using assms
  by (auto simp: try_block_eq split: if_splits option.splits outcome.splits)

lemma try_block_request:
  assumes "try_block a proxy pt s = (r, s1)"
    and "2 \<le> length (split (CHR '':'') proxy)" and "select_proxy_type pt = Some t"
  shows "length (filter is_get (trace s1)) = Suc (length (filter is_get (trace s)))"
proof -
  have s1: "s1 = snd (try_block a proxy pt s)" using assms by simp
  show ?thesis
    unfolding s1 using assms(2,3)
    by (simp add: try_block_eq split: outcome.splits option.splits)
qed

lemma except_block_observe:
  "foldl observe st (trace s) = (False, n) \<Longrightarrow>
   foldl observe st (trace (except_block cfg proxy e s)) = (False, n)"
  by (simp add: except_block_eq)

lemma finally_block_titles:
  assumes "finally_block a s = (z, s2)"
  shows "list_all title_ok (trace s2) \<longleftrightarrow>
         list_all title_ok (trace s) \<and> (z = None \<longrightarrow> good_proxies s \<le> total_proxies_checked s + 1)"
proof -
  have s2: "s2 = snd (finally_block a s)" and z: "z = fst (finally_block a s)"
    using assms by simp_all
  show ?thesis unfolding s2 z by (simp add: finally_block_eq split: sum.splits)
qed

lemma except_block_titles:
  "list_all title_ok (trace (except_block cfg proxy e s)) = list_all title_ok (trace s)"
  "count_list (trace (except_block cfg proxy e s)) (Sleep d) =
     count_list (trace s) (Sleep d) + (if d = retry_delay cfg then 1 else 0)"
  by (simp_all add: except_block_eq)

section \<open>Invariants of the loop\<close>

lemma loop_permit:
  assumes "foldl observe (False, 0) (trace s) = (False, n)"
  shows "foldl observe (False, 0) (trace (snd (check_proxy_loop cfg env proxy pt rc s))) = (False, n)"
proof (rule loop_rule [where I = "\<lambda>rc s'. foldl observe (False, 0) (trace s') = (False, n)"],
    goal_cases)
  case 1
  show ?case using assms .
next
  case (2 rc s u s1 z s2)
  then show ?case
    using try_block_observe [of "env rc" proxy pt s "Inr u" s1 "(False, 0)" n]
      finally_block_trace(6) [of "env rc" s1 z s2 "(False, 0)"]
    by simp
next
  case (3 rc s e s1 err s2)
  then show ?case
    using try_block_observe [of "env rc" proxy pt s "Inl e" s1 "(False, 0)" n]
      except_block_observe [of "(False, 0)" s1 n cfg proxy e]
      finally_block_trace(6) [of "env rc" "except_block cfg proxy e s1" "Some err" s2 "(False, 0)"]
    by simp
next
  case (4 rc s e s1 s2)
  then show ?case
    using try_block_observe [of "env rc" proxy pt s "Inl e" s1 "(False, 0)" n]
      except_block_observe [of "(False, 0)" s1 n cfg proxy e]
      finally_block_trace(6) [of "env rc" "except_block cfg proxy e s1" None s2 "(False, 0)"]
    by simp
next
  case (5 rc s)
  then show ?case by (simp add: emit_def)
qed

lemma loop_release:
  "count_list (trace (snd (check_proxy_loop cfg env proxy pt rc s))) Release + count_list (trace s) Acquire =
   count_list (trace (snd (check_proxy_loop cfg env proxy pt rc s))) Acquire + count_list (trace s) Release"
proof (rule loop_rule [where I = "\<lambda>rc s'. count_list (trace s') Release + count_list (trace s) Acquire =
        count_list (trace s') Acquire + count_list (trace s) Release"], goal_cases)
  case 1
  show ?case by simp
next
  case (2 rc s u s1 z s2)
  then show ?case
    using try_block_acquire [of "env rc" proxy pt s "Inr u" s1]
      finally_block_trace(1,2) [of "env rc" s1 z s2]
    by simp
next
  case (3 rc s e s1 err s2)
  then show ?case
    using try_block_acquire [of "env rc" proxy pt s "Inl e" s1]
      finally_block_trace(1,2) [of "env rc" "except_block cfg proxy e s1" "Some err" s2]
    by (simp add: except_block_trace)
next
  case (4 rc s e s1 s2)
  then show ?case
    using try_block_acquire [of "env rc" proxy pt s "Inl e" s1]
      finally_block_trace(1,2) [of "env rc" "except_block cfg proxy e s1" None s2]
    by (simp add: except_block_trace)
next
  case (5 rc s)
  then show ?case by (simp add: emit_def)
qed

lemma loop_counters:
  assumes "good_proxies s \<le> total_proxies_checked s" "list_all title_ok (trace s)"
  shows "good_proxies (snd (check_proxy_loop cfg env proxy pt rc s))
           \<le> total_proxies_checked (snd (check_proxy_loop cfg env proxy pt rc s)) \<and>
         list_all title_ok (trace (snd (check_proxy_loop cfg env proxy pt rc s)))"
proof (rule loop_rule [where
      I = "\<lambda>rc s'. good_proxies s' \<le> total_proxies_checked s' \<and> list_all title_ok (trace s')"],
    goal_cases)
  case 1
  show ?case using assms by simp
next
  case (2 rc s u s1 z s2)
  then show ?case
    using try_block_Inr(1) [of "env rc" proxy pt s u s1] try_block_more(3,4) [of "env rc" proxy pt s "Inr u" s1]
      finally_block_trace(8,9) [of "env rc" s1 z s2]
      finally_block_titles [of "env rc" s1 z s2]
    by auto
next
  case (3 rc s e s1 err s2)
  then show ?case
    using try_block_Inl(1) [of "env rc" proxy pt s e s1] try_block_more(3,4) [of "env rc" proxy pt s "Inl e" s1]
      finally_block_trace(8,9) [of "env rc" "except_block cfg proxy e s1" "Some err" s2]
      finally_block_titles [of "env rc" "except_block cfg proxy e s1" "Some err" s2]
    by (auto simp: except_block_trace except_block_titles)
next
  case (4 rc s e s1 s2)
  then show ?case
    using try_block_Inl(1) [of "env rc" proxy pt s e s1] try_block_more(3,4) [of "env rc" proxy pt s "Inl e" s1]
      finally_block_trace(8,9) [of "env rc" "except_block cfg proxy e s1" None s2]
      finally_block_titles [of "env rc" "except_block cfg proxy e s1" None s2]
    by (auto simp: except_block_trace except_block_titles)
next
  case (5 rc s)
  then show ?case by (simp add: emit_def)
qed

lemma try_block_raises:
  assumes "try_block a proxy pt s = (r, s1)" and "outcome a = Raised e"
  shows "\<exists>e'. r = Inl e'"
  using assms
  by (auto simp: try_block_eq split: if_splits option.splits)

lemma loop_all_raise:
  assumes raising: "\<And>i. outcome (env i) = Raised (errs i)"
    and clock: "\<And>i checked. \<exists>r. rate (env i) checked = Inr r"
    and fields: "2 \<le> length (split (CHR '':'') proxy)"
    and valid: "select_proxy_type pt = Some t"
    and start: "int rc \<le> max_retry cfg + 1"
  shows "fst (check_proxy_loop cfg env proxy pt rc s) = None \<and>
      int (length (filter is_get (trace (snd (check_proxy_loop cfg env proxy pt rc s))))) =
        int (length (filter is_get (trace s))) + (max_retry cfg + 1 - int rc) \<and>
      count_list (trace (snd (check_proxy_loop cfg env proxy pt rc s))) (Print_exceeded proxy) =
        count_list (trace s) (Print_exceeded proxy) + 1"
proof (rule loop_rule [where
      I = "\<lambda>i s'. int (length (filter is_get (trace s'))) + int rc =
                    int (length (filter is_get (trace s))) + int i \<and>
             count_list (trace s') (Print_exceeded proxy) = count_list (trace s) (Print_exceeded proxy) \<and>
             int i \<le> max_retry cfg + 1" and
      Q = "\<lambda>res. fst res = None \<and>
             int (length (filter is_get (trace (snd res)))) =
               int (length (filter is_get (trace s))) + (max_retry cfg + 1 - int rc) \<and>
             count_list (trace (snd res)) (Print_exceeded proxy) =
               count_list (trace s) (Print_exceeded proxy) + 1"], goal_cases)
  case 1
  show ?case using start by simp
next
  case (2 i s u s1 z s2)
  then show ?case
    using try_block_raises [of "env i" proxy pt s "Inr u" s1 "errs i"] raising [of i]
    by simp
next
  case (3 i s e s1 err s2)
  then show ?case
    using finally_block_trace(10) [OF "3"(4)]
      clock [of i "total_proxies_checked (except_block cfg proxy e s1) + 1"]
    by auto
next
  case (4 i s e s1 s2)
  then show ?case
    using try_block_request [of "env i" proxy pt s "Inl e" s1 t] fields valid
      try_block_more(2) [OF "4"(3)]
      finally_block_trace(4,5) [OF "4"(4)]
    by (simp add: except_block_trace)
next
  case (5 i s)
  then show ?case by (simp add: emit_def)
qed

lemma loop_no_error:
  assumes clock: "\<And>i checked. \<exists>r. rate (env i) checked = Inr r"
  shows "fst (check_proxy_loop cfg env proxy pt rc s) = None"
proof (rule loop_rule [where I = "\<lambda>i s'. True" and Q = "\<lambda>res. fst res = None"], goal_cases)
  case (2 i s u s1 z s2)
  then show ?case
    using finally_block_trace(10) [OF "2"(4)] clock [of i "total_proxies_checked s1 + 1"]
    by auto
next
  case (3 i s e s1 err s2)
  then show ?case
    using finally_block_trace(10) [OF "3"(4)]
      clock [of i "total_proxies_checked (except_block cfg proxy e s1) + 1"]
    by auto
qed simp_all

lemma loop_time_zero:
  assumes "int rc \<le> max_retry cfg" and "elapsed (env rc) = 0"
  shows "fst (check_proxy_loop cfg env proxy pt rc s) = Some ZeroDivisionError"
    and "total_proxies_checked (snd (check_proxy_loop cfg env proxy pt rc s)) =
           total_proxies_checked s + 1"
    and "proxies_checked_per_minute (snd (check_proxy_loop cfg env proxy pt rc s)) =
           proxies_checked_per_minute s"
proof -
  obtain r s1 where tb: "try_block (env rc) proxy pt s = (r, s1)"
    by (cases "try_block (env rc) proxy pt s")
  have s1: "total_proxies_checked s1 = total_proxies_checked s"
    "proxies_checked_per_minute s1 = proxies_checked_per_minute s"
    using tb by (auto simp: try_block_eq split: if_splits option.splits outcome.splits)
  have "fst (check_proxy_loop cfg env proxy pt rc s) = Some ZeroDivisionError \<and>
     total_proxies_checked (snd (check_proxy_loop cfg env proxy pt rc s)) = total_proxies_checked s + 1 \<and>
     proxies_checked_per_minute (snd (check_proxy_loop cfg env proxy pt rc s)) = proxies_checked_per_minute s"
  proof (cases r)
    case (Inr u)
    then show ?thesis
      using assms tb s1 loop_return [of rc cfg env proxy pt s u s1]
      by (simp add: finally_block_eq rate_def)
  next
    case (Inl e)
    then show ?thesis
      using assms tb s1
        loop_raise [of rc cfg env proxy pt s e s1 ZeroDivisionError
          "(except_block cfg proxy e s1)\<lparr>total_proxies_checked :=
              total_proxies_checked (except_block cfg proxy e s1) + 1\<rparr>"]
      by (simp add: finally_block_eq except_block_eq rate_def)
  qed
  then show "fst (check_proxy_loop cfg env proxy pt rc s) = Some ZeroDivisionError"
    and "total_proxies_checked (snd (check_proxy_loop cfg env proxy pt rc s)) =
           total_proxies_checked s + 1"
    and "proxies_checked_per_minute (snd (check_proxy_loop cfg env proxy pt rc s)) =
           proxies_checked_per_minute s"
    by simp_all
qed

lemma loop_file:
  "(good_proxy_file (snd (check_proxy_loop cfg env proxy pt rc s)) = good_proxy_file s \<or>
    good_proxy_file (snd (check_proxy_loop cfg env proxy pt rc s)) =
      good_proxy_file s @ [proxy @ [CHR 0x0A]]) \<and>
   (count_list (trace (snd (check_proxy_loop cfg env proxy pt rc s))) (Print_exceeded proxy) \<noteq>
      count_list (trace s) (Print_exceeded proxy) \<longrightarrow>
    good_proxy_file (snd (check_proxy_loop cfg env proxy pt rc s)) = good_proxy_file s)"
proof (rule loop_rule [where
      I = "\<lambda>i s'. good_proxy_file s' = good_proxy_file s \<and>
             count_list (trace s') (Print_exceeded proxy) = count_list (trace s) (Print_exceeded proxy)" and
      Q = "\<lambda>res. (good_proxy_file (snd res) = good_proxy_file s \<or>
               good_proxy_file (snd res) = good_proxy_file s @ [proxy @ [CHR 0x0A]]) \<and>
             (count_list (trace (snd res)) (Print_exceeded proxy) \<noteq>
                count_list (trace s) (Print_exceeded proxy) \<longrightarrow>
              good_proxy_file (snd res) = good_proxy_file s)"], goal_cases)
  case 1
  show ?case by simp
next
  case (2 i s u s1 z s2)
  then show ?case
    using try_block_Inr(2) [of "env i" proxy pt s u s1]
      try_block_more(2) [OF "2"(3)]
      finally_block_trace(4,7) [OF "2"(4)]
    by auto
next
  case (3 i s e s1 err s2)
  then show ?case
    using try_block_Inl(2) [of "env i" proxy pt s e s1]
      try_block_more(2) [OF "3"(3)]
      finally_block_trace(4,7) [OF "3"(4)]
    by (simp add: except_block_trace)
next
  case (4 i s e s1 s2)
  then show ?case
    using try_block_Inl(2) [of "env i" proxy pt s e s1]
      try_block_more(2) [OF "4"(3)]
      finally_block_trace(4,7) [OF "4"(4)]
    by (simp add: except_block_trace)
next
  case (5 i s)
  then show ?case by (simp add: emit_def)
qed

lemma permit_step_failure_line [simp]: "permit_step st (failure_line cfg proxy e) = st"
  using failure_line_cases [of cfg proxy e] by (cases st) auto

lemma permit_step_request_event [simp]:
  "permit_step (Some True) (request_event t proxy) = Some True"
  by (simp add: request_event_def Let_def)

lemma try_block_protocol:
  assumes "try_block a proxy pt s = (r, s1)" and "foldl permit_step st (trace s) = Some False"
  shows "foldl permit_step st (trace s1) = Some False"
proof -
  have s1: "s1 = snd (try_block a proxy pt s)" using assms by simp
  show ?thesis
    unfolding s1 using assms(2)
    by (simp add: try_block_eq split: option.splits outcome.splits)
qed

lemma except_block_protocol:
  "foldl permit_step st (trace s) = Some False \<Longrightarrow>
   foldl permit_step st (trace (except_block cfg proxy e s)) = Some False"
  by (simp add: except_block_eq)

lemma finally_block_protocol:
  assumes "finally_block a s = (z, s2)"
  shows "foldl permit_step st (trace s2) = foldl permit_step st (trace s)"
proof -
  have s2: "s2 = snd (finally_block a s)" using assms by simp
  show ?thesis
    unfolding s2
    by (cases "foldl permit_step st (trace s)") (simp_all add: finally_block_eq split: sum.splits)
qed

lemma loop_protocol:
  assumes "foldl permit_step (Some False) (trace s) = Some False"
  shows "foldl permit_step (Some False) (trace (snd (check_proxy_loop cfg env proxy pt rc s))) = Some False"
proof (rule loop_rule [where I = "\<lambda>rc s'. foldl permit_step (Some False) (trace s') = Some False"],
    goal_cases)
  case 1
  show ?case using assms .
next
  case (2 rc s u s1 z s2)
  then show ?case
    using try_block_protocol [OF "2"(3), of "Some False"] finally_block_protocol [OF "2"(4), of "Some False"]
    by simp
next
  case (3 rc s e s1 err s2)
  then show ?case
    using try_block_protocol [OF "3"(3), of "Some False"]
      except_block_protocol [of "Some False" s1 cfg proxy e]
      finally_block_protocol [OF "3"(4), of "Some False"]
    by simp
next
  case (4 rc s e s1 s2)
  then show ?case
    using try_block_protocol [OF "4"(3), of "Some False"]
      except_block_protocol [of "Some False" s1 cfg proxy e]
      finally_block_protocol [OF "4"(4), of "Some False"]
    by simp
next
  case (5 rc s)
  then show ?case by (simp add: emit_def)
qed

lemma loop_acquire_per_attempt:
  "int (count_list (trace (snd (check_proxy_loop cfg env proxy pt rc s))) Acquire) -
     int (count_list (trace s) Acquire) =
   total_proxies_checked (snd (check_proxy_loop cfg env proxy pt rc s)) - total_proxies_checked s"
proof (rule loop_rule [where I = "\<lambda>rc s'. int (count_list (trace s') Acquire) -
     int (count_list (trace s) Acquire) = total_proxies_checked s' - total_proxies_checked s"],
    goal_cases)
  case 1
  show ?case by simp
next
  case (2 rc s u s1 z s2)
  then show ?case
    using try_block_acquire(1) [OF "2"(3)] try_block_more(3) [OF "2"(3)]
      finally_block_trace(1,9) [OF "2"(4)]
    by simp
next
  case (3 rc s e s1 err s2)
  then show ?case
    using try_block_acquire(1) [OF "3"(3)] try_block_more(3) [OF "3"(3)]
      finally_block_trace(1,9) [OF "3"(4)]
    by (simp add: except_block_trace)
next
  case (4 rc s e s1 s2)
  then show ?case
    using try_block_acquire(1) [OF "4"(3)] try_block_more(3) [OF "4"(3)]
      finally_block_trace(1,9) [OF "4"(4)]
    by (simp add: except_block_trace)
next
  case (5 rc s)
  then show ?case by (simp add: emit_def)
qed

lemma try_block_events:
  assumes "try_block a proxy pt s = (r, s1)"
  shows "trace s1 = trace s @ new_events s s1"
    and "hd (new_events s s1) = Acquire" and "last (new_events s s1) = Release"
    and "count_list (new_events s s1) Acquire = 1" and "count_list (new_events s s1) Release = 1"
    and "count_list (new_events s s1) (Sleep d) = 0"
proof -
  have s1: "s1 = snd (try_block a proxy pt s)" using assms by simp
  show "trace s1 = trace s @ new_events s s1"
    unfolding s1 new_events_def by (simp add: try_block_eq split: option.splits outcome.splits)
  show "hd (new_events s s1) = Acquire"
    unfolding s1 new_events_def by (simp add: try_block_eq split: option.splits outcome.splits)
  show "last (new_events s s1) = Release"
    unfolding s1 new_events_def by (simp add: try_block_eq split: option.splits outcome.splits)
  show "count_list (new_events s s1) Acquire = 1"
    unfolding s1 new_events_def by (simp add: try_block_eq split: option.splits outcome.splits)
  show "count_list (new_events s s1) Release = 1"
    unfolding s1 new_events_def by (simp add: try_block_eq split: option.splits outcome.splits)
  show "count_list (new_events s s1) (Sleep d) = 0"
    unfolding s1 new_events_def by (simp add: try_block_eq split: option.splits outcome.splits)
qed

lemma except_block_events:
  "new_events s (except_block cfg proxy e s) = [failure_line cfg proxy e, Sleep (retry_delay cfg)]"
  by (simp add: new_events_def except_block_eq)

section \<open>Reading a saved line back\<close>

lemma dropWhile_id: "xs \<noteq> [] \<Longrightarrow> \<not> P (hd xs) \<Longrightarrow> dropWhile P xs = xs"
  by (cases xs) simp_all

lemma last_dropWhile: "dropWhile P xs \<noteq> [] \<Longrightarrow> last (dropWhile P xs) = last xs"
  by (induction xs) (auto split: if_splits)

lemma strip_ends:
  assumes "strip raw \<noteq> []"
  shows "\<not> py_isspace (hd (strip raw))" and "\<not> py_isspace (last (strip raw))"
proof -
  let ?d = "dropWhile py_isspace raw"
  let ?e = "dropWhile py_isspace (rev ?d)"
  have e: "?e \<noteq> []" using assms by (simp add: strip_def)
  have d: "?d \<noteq> []"
  proof
    assume "?d = []"
    then have "?e = []" by (simp only: rev.simps dropWhile.simps)
    with e show False by contradiction
  qed
  have "hd (strip raw) = last ?e" using e by (simp add: strip_def hd_rev)
  also have "\<dots> = last (rev ?d)" using e by (rule last_dropWhile)
  also have "\<dots> = hd ?d" using d by (simp add: last_rev)
  finally show "\<not> py_isspace (hd (strip raw))" using d hd_dropWhile [of py_isspace raw] by simp
  have "last (strip raw) = hd ?e" using e by (simp add: strip_def last_rev)
  then show "\<not> py_isspace (last (strip raw))" using e hd_dropWhile [of py_isspace "rev ?d"] by simp
qed

lemma strip_line:
  assumes "strip raw \<noteq> []"
  shows "strip (strip raw @ [CHR 0x0A]) = strip raw"
proof -
  let ?l = "strip raw"
  have nl: "py_isspace (CHR 0x0A)" by (simp add: py_isspace_def)
  have "dropWhile py_isspace (?l @ [CHR 0x0A]) = ?l @ [CHR 0x0A]"
    using assms strip_ends(1) [OF assms] by (intro dropWhile_id) simp_all
  moreover have "dropWhile py_isspace (rev ?l) = rev ?l"
    using assms strip_ends(2) [OF assms] by (intro dropWhile_id) (simp_all add: hd_rev)
  ultimately show ?thesis
    using nl by (simp add: strip_def [of "strip raw @ [CHR 0x0A]"])
qed

lemma accepted_non_empty: "accepted l \<Longrightarrow> l \<noteq> []"
  by (auto simp: accepted_def)

lemma read_proxy_file_member:
  assumes "read_proxy_file fs filepath = Inr proxies" and "proxy \<in> set proxies"
  shows "accepted proxy \<and> (\<exists>raw. proxy = strip raw)"
proof -
  obtain lines where "fs filepath = Some (Text lines)" and "proxies = remdups (collect_proxies [] lines)"
    using assms(1) by (auto simp: read_proxy_file_def Let_def split: option.splits file_contents.splits if_splits)
  then show ?thesis using assms(2) by (auto simp: collect_proxies_filter)
qed

lemma saved_line_parses:
  assumes "read_proxy_file fs filepath = Inr proxies" and "proxy \<in> set proxies"
  shows "strip (proxy @ [CHR 0x0A]) = proxy" and "keep_line (proxy @ [CHR 0x0A]) = Some proxy"
proof -
  obtain raw where acc: "accepted proxy" and raw: "proxy = strip raw"
    using read_proxy_file_member [OF assms] by blast
  have "proxy \<noteq> []" using acc by (rule accepted_non_empty)
  then show "strip (proxy @ [CHR 0x0A]) = proxy"
    unfolding raw by (rule strip_line)
  then show "keep_line (proxy @ [CHR 0x0A]) = Some proxy"
    using acc by (simp add: keep_line_accepted)
qed

section \<open>Sample runs\<close>

lemmas run_defs = check_proxy_def check_proxy_loop.simps default_config_def always_def
  timing_out_def responding_def at_time_zero_def init_def try_block_def except_block_def
  finally_block_def rate_def ten_per_check_def emit_def save_proxy_def select_proxy_type_def Let_def

lemma run_timing_out:
  "check_proxy default_config (always timing_out) ''1.2.3.4:8080'' ''HTTP'' init =
     (None, \<lparr>total_proxies_checked = 2, good_proxies = 0, proxies_checked_per_minute = 20,
             good_proxy_file = [],
             trace = [Acquire, Get HTTP ''1.2.3.4'' ''8080'' None None, Release,
                      Print_failure_timeout ''1.2.3.4:8080'' 5, Sleep 3, Title 1 0 10,
                      Acquire, Get HTTP ''1.2.3.4'' ''8080'' None None, Release,
                      Print_failure_timeout ''1.2.3.4:8080'' 5, Sleep 3, Title 2 0 20,
                      Print_exceeded ''1.2.3.4:8080'']\<rparr>)"
  by (simp add: run_defs)

lemma run_status_404:
  "check_proxy default_config (always (responding 404)) ''1.2.3.4:8080'' ''HTTP'' init =
     (None, \<lparr>total_proxies_checked = 1, good_proxies = 0, proxies_checked_per_minute = 10,
             good_proxy_file = [],
             trace = [Acquire, Get HTTP ''1.2.3.4'' ''8080'' None None,
                      Print_failure_status ''1.2.3.4:8080'' 1, Release, Title 1 0 10]\<rparr>)"
  by (simp add: run_defs)

lemma run_time_zero:
  "check_proxy default_config (always at_time_zero) ''1.2.3.4:8080'' ''HTTP'' init =
     (Some ZeroDivisionError,
      \<lparr>total_proxies_checked = 1, good_proxies = 1, proxies_checked_per_minute = 0,
       good_proxy_file = [''1.2.3.4:8080'' @ [CHR 0x0A]],
       trace = [Acquire, Get HTTP ''1.2.3.4'' ''8080'' None None,
                Print_success ''1.2.3.4:8080'' 0, Release]\<rparr>)"
  by (simp add: run_defs)

lemma run_status_200:
  "check_proxy default_config (always (responding 200)) ''1.2.3.4:8080'' ''HTTP'' init =
     (None, \<lparr>total_proxies_checked = 1, good_proxies = 1, proxies_checked_per_minute = 10,
             good_proxy_file = [''1.2.3.4:8080'' @ [CHR 0x0A]],
             trace = [Acquire, Get HTTP ''1.2.3.4'' ''8080'' None None,
                      Print_success ''1.2.3.4:8080'' 1, Release, Title 1 1 10]\<rparr>)"
  by (simp add: run_defs)

section \<open>The claims about \<open>check_proxy\<close>\<close>

text \<open>
  C1: for every descriptor \<open>total_proxies_checked\<close> should go up by exactly 1 over
  the whole sequence of attempts, and never between two attempts.  The \<open>finally\<close> block
  runs in every pass of the loop: with the default \<open>max_retry = 1\<close> a proxy that times
  out twice raises the counter by 2, and the title shows the value 1 after the first
  attempt already.
\<close>

theorem total_counts_attempts:
  "total_proxies_checked (snd (check_proxy default_config (always timing_out)
      ''1.2.3.4:8080'' ''HTTP'' init)) = total_proxies_checked init + 2 \<and>
   Title 1 0 10 \<in> set (trace (snd (check_proxy default_config (always timing_out)
      ''1.2.3.4:8080'' ''HTTP'' init)))"
  by (simp add: run_timing_out) (simp add: init_def)

text \<open>
  C2: a proxy type other than HTTP, HTTPS, SOCKS4 and SOCKS5 should fail at the first
  attempt without any retry.  The \<open>ValueError\<close> is raised inside the \<open>try\<close> block and
  caught by the second \<open>except\<close> clause: with the type \<open>FTP\<close> and the default
  configuration \<open>check_proxy\<close> makes two attempts, sleeps after each of them, reports that
  the retries are exceeded and raises nothing.
\<close>

theorem invalid_type_is_retried:
  "check_proxy default_config (always (responding 200)) ''1.2.3.4:8080'' ''FTP'' init =
     (None, \<lparr>total_proxies_checked = 2, good_proxies = 0, proxies_checked_per_minute = 20,
             good_proxy_file = [],
             trace = [Acquire, Release,
                      Print_failure_error ''1.2.3.4:8080'' (ValueError ''Invalid proxy type''),
                      Sleep 3, Title 1 0 10,
                      Acquire, Release,
                      Print_failure_error ''1.2.3.4:8080'' (ValueError ''Invalid proxy type''),
                      Sleep 3, Title 2 0 20,
                      Print_exceeded ''1.2.3.4:8080'']\<rparr>)"
  by (simp add: run_defs)

text \<open>
  C3, as stated, fails: with a retry left, a response with status 404 is followed by no
  sleep and by no second request.
\<close>

theorem non_200_not_retried:
  "max_retry default_config = 1 \<and>
   outcome (always (responding 404) 0) = Response 404 \<and>
   count_list (trace (snd (check_proxy default_config (always (responding 404))
      ''1.2.3.4:8080'' ''HTTP'' init))) (Sleep (retry_delay default_config)) = 0 \<and>
   length (filter is_get (trace (snd (check_proxy default_config (always (responding 404))
      ''1.2.3.4:8080'' ''HTTP'' init)))) = 1"
  by (simp add: run_status_404) (simp add: default_config_def always_def responding_def)

text \<open>
  C3, amended: a response whose status is not 200 ends the sequence of attempts of the
  descriptor.  At whatever value of \<open>retry_count\<close> it arrives, \<open>check_proxy\<close> prints the
  failure, leaves the semaphore and runs the \<open>finally\<close> block, and nothing more: no
  sleep, no further request, nothing written to the output file.
\<close>

theorem non_200_is_terminal:
  assumes "int retry_count \<le> max_retry cfg"
    and "2 \<le> length (split (CHR '':'') proxy)"
    and "select_proxy_type proxy_type = Some t"
    and "outcome (env retry_count) = Response status" and "status \<noteq> 200"
  shows "check_proxy_loop cfg env proxy proxy_type retry_count s =
           finally_block (env retry_count)
             (s\<lparr>trace := trace s @ [Acquire, request_event t proxy,
                    Print_failure_status proxy (response_time (env retry_count)), Release]\<rparr>) \<and>
         count_list (trace (snd (check_proxy_loop cfg env proxy proxy_type retry_count s))) (Sleep d) =
           count_list (trace s) (Sleep d) \<and>
         length (filter is_get (trace (snd (check_proxy_loop cfg env proxy proxy_type retry_count s)))) =
           length (filter is_get (trace s)) + 1 \<and>
         good_proxy_file (snd (check_proxy_loop cfg env proxy proxy_type retry_count s)) =
           good_proxy_file s"
proof -
  have tb: "try_block (env retry_count) proxy proxy_type s =
     (Inr (), s\<lparr>trace := trace s @ [Acquire, request_event t proxy,
                    Print_failure_status proxy (response_time (env retry_count)), Release]\<rparr>)"
    using assms by (simp add: try_block_eq)
  have eq: "check_proxy_loop cfg env proxy proxy_type retry_count s =
           finally_block (env retry_count)
             (s\<lparr>trace := trace s @ [Acquire, request_event t proxy,
                    Print_failure_status proxy (response_time (env retry_count)), Release]\<rparr>)"
    using assms(1) tb by (rule loop_return)
  show ?thesis
    unfolding eq by (simp add: finally_block_eq split: sum.splits)
qed

theorem non_200_is_terminal_witness:
  "outcome (always (responding 404) 0) = Response 404 \<and>
   count_list (trace (snd (check_proxy_loop default_config (always (responding 404))
      ''1.2.3.4:8080'' ''HTTP'' 0 init))) (Sleep 3) = count_list (trace init) (Sleep 3) \<and>
   good_proxy_file (snd (check_proxy_loop default_config (always (responding 404))
      ''1.2.3.4:8080'' ''HTTP'' 0 init)) = good_proxy_file init"
proof -
  have h1: "int 0 \<le> max_retry default_config"
    by (simp add: default_config_def)
  have h2: "2 \<le> length (split (CHR '':'') ''1.2.3.4:8080'')"
    by simp
  have h3: "select_proxy_type ''HTTP'' = Some HTTP"
    by (simp add: select_proxy_type_def)
  have h4: "outcome (always (responding 404) 0) = Response 404"
    by (simp add: always_def responding_def)
  have h5: "(404::int) \<noteq> 200"
    by simp
  show ?thesis
    using h1 h2 h3 h4 h5
      non_200_is_terminal [of 0 default_config "''1.2.3.4:8080''" "''HTTP''" HTTP
        "always (responding 404)" 404 init 3]
    by blast
qed

text \<open>
  C4: with \<open>max_retry = 1\<close>, a well-formed descriptor with a valid proxy type on which
  every attempt times out makes exactly 2 requests and is reported once as having
  exceeded the retries (the clock of the \<open>finally\<close> block is assumed not to read 0, see
  C8, and the floating-point evaluation of the rate to raise nothing).  In general, for a
  non-negative \<open>max_retry\<close>, the number of attempts (entries into
  the semaphore) is at most \<open>max_retry + 1\<close>; for any \<open>max_retry\<close> it is at most
  \<open>max 0 (max_retry + 1)\<close>.
\<close>

theorem retry_budget:
  "(max_retry cfg = 1 \<and> (\<forall>i. outcome (env i) = Raised TimeoutError) \<and>
    (\<forall>i. elapsed (env i) \<noteq> 0) \<and> (\<forall>i checked. \<exists>r. float_rate (env i) checked = Inr r) \<and>
    2 \<le> length (split (CHR '':'') proxy) \<and>
    select_proxy_type proxy_type = Some t \<longrightarrow>
      fst (check_proxy cfg env proxy proxy_type s) = None \<and>
      length (filter is_get (trace (snd (check_proxy cfg env proxy proxy_type s)))) =
        length (filter is_get (trace s)) + 2 \<and>
      count_list (trace (snd (check_proxy cfg env proxy proxy_type s))) (Print_exceeded proxy) =
        count_list (trace s) (Print_exceeded proxy) + 1) \<and>
   (0 \<le> max_retry cfg \<longrightarrow>
      int (count_list (trace (snd (check_proxy cfg env proxy proxy_type s))) Acquire)
        \<le> int (count_list (trace s) Acquire) + max_retry cfg + 1) \<and>
   int (count_list (trace (snd (check_proxy cfg env proxy proxy_type s))) Acquire)
     \<le> int (count_list (trace s) Acquire) + max 0 (max_retry cfg + 1)"
proof (intro conjI impI)
  assume h: "max_retry cfg = 1 \<and> (\<forall>i. outcome (env i) = Raised TimeoutError) \<and>
    (\<forall>i. elapsed (env i) \<noteq> 0) \<and> (\<forall>i checked. \<exists>r. float_rate (env i) checked = Inr r) \<and>
    2 \<le> length (split (CHR '':'') proxy) \<and>
    select_proxy_type proxy_type = Some t"
  have all: "fst (check_proxy_loop cfg env proxy proxy_type 0 s) = None \<and>
      int (length (filter is_get (trace (snd (check_proxy_loop cfg env proxy proxy_type 0 s))))) =
        int (length (filter is_get (trace s))) + (max_retry cfg + 1 - int 0) \<and>
      count_list (trace (snd (check_proxy_loop cfg env proxy proxy_type 0 s))) (Print_exceeded proxy) =
        count_list (trace s) (Print_exceeded proxy) + 1"
    using h by (intro loop_all_raise [where errs = "\<lambda>i. TimeoutError" and t = t])
      (simp_all add: rate_def)
  show "fst (check_proxy cfg env proxy proxy_type s) = None"
    using all by (simp add: check_proxy_def)
  show "length (filter is_get (trace (snd (check_proxy cfg env proxy proxy_type s)))) =
        length (filter is_get (trace s)) + 2"
    using all h by (simp add: check_proxy_def)
  show "count_list (trace (snd (check_proxy cfg env proxy proxy_type s))) (Print_exceeded proxy) =
        count_list (trace s) (Print_exceeded proxy) + 1"
    using all by (simp add: check_proxy_def)
next
  assume "0 \<le> max_retry cfg"
  then show "int (count_list (trace (snd (check_proxy cfg env proxy proxy_type s))) Acquire)
        \<le> int (count_list (trace s) Acquire) + max_retry cfg + 1"
    using acquire_bound [of cfg env proxy proxy_type s] by simp
next
  show "int (count_list (trace (snd (check_proxy cfg env proxy proxy_type s))) Acquire)
     \<le> int (count_list (trace s) Acquire) + max 0 (max_retry cfg + 1)"
    by (rule acquire_bound)
qed

theorem retry_budget_witness:
  "max_retry default_config = 1 \<and>
   length (filter is_get (trace (snd (check_proxy default_config (always timing_out)
      ''1.2.3.4:8080'' ''HTTP'' init)))) = length (filter is_get (trace init)) + 2 \<and>
   count_list (trace (snd (check_proxy default_config (always timing_out)
      ''1.2.3.4:8080'' ''HTTP'' init))) (Print_exceeded ''1.2.3.4:8080'') =
     count_list (trace init) (Print_exceeded ''1.2.3.4:8080'') + 1 \<and>
   int (count_list (trace (snd (check_proxy default_config (always timing_out)
      ''1.2.3.4:8080'' ''HTTP'' init))) Acquire)
     \<le> int (count_list (trace init) Acquire) + max_retry default_config + 1"
proof -
  have h1: "max_retry default_config = 1"
    by (simp add: default_config_def)
  have h2: "\<forall>i. outcome (always timing_out i) = Raised TimeoutError"
    by (simp add: always_def timing_out_def)
  have h3: "\<forall>i. elapsed (always timing_out i) \<noteq> 0"
    by (simp add: always_def timing_out_def)
  have h4: "2 \<le> length (split (CHR '':'') ''1.2.3.4:8080'')"
    by simp
  have h5: "select_proxy_type ''HTTP'' = Some HTTP"
    by (simp add: select_proxy_type_def)
  have h6: "0 \<le> max_retry default_config"
    by (simp add: default_config_def)
  have h7: "\<forall>i checked. \<exists>r. float_rate (always timing_out i) checked = Inr r"
    by (simp add: always_def timing_out_def ten_per_check_def)
  show ?thesis
    using h1 h2 h3 h4 h5 h6 h7
      retry_budget [of default_config "always timing_out" "''1.2.3.4:8080''" "''HTTP''" HTTP init]
    by blast
qed

text \<open>
  C7, as stated, fails: a proxy that times out twice sleeps twice, both times without a
  permit, and releases the permit once in each attempt.
\<close>

theorem permit_released_before_sleep:
  "count_list (trace (snd (check_proxy default_config (always timing_out)
      ''1.2.3.4:8080'' ''HTTP'' init))) (Sleep (retry_delay default_config)) = 2 \<and>
   sleeps_holding (trace (snd (check_proxy default_config (always timing_out)
      ''1.2.3.4:8080'' ''HTTP'' init))) = 0 \<and>
   count_list (trace (snd (check_proxy default_config (always timing_out)
      ''1.2.3.4:8080'' ''HTTP'' init))) Release = 2"
  by (simp add: run_timing_out sleeps_holding_def) (simp add: default_config_def)

text \<open>
  C7, amended: a descriptor holds a permit only during a single attempt, not for its
  whole retry sequence.  Every attempt enters \<open>async with semaphore\<close> anew: the events of
  its \<open>try\<close> block begin with the acquisition of the permit and end with its release,
  with no other acquisition or release and no sleep between them, and the \<open>except\<close>
  clause prints and sleeps \<open>retry_delay\<close> after that.  Over a whole call the permit is
  acquired once for every attempt (every pass of the loop, which the \<open>finally\<close> block
  counts in \<open>total_proxies_checked\<close>) and released as often.  A call that starts without
  a permit and has used the semaphore properly so far acquires only when it holds no
  permit, releases only when it holds one, makes every request while it holds one,
  sleeps only when it holds none, and ends without one.
\<close>

theorem permit_held_per_attempt:
  assumes "\<not> permit_held (trace s)"
  shows "\<not> permit_held (trace (snd (check_proxy cfg env proxy proxy_type s))) \<and>
     sleeps_holding (trace (snd (check_proxy cfg env proxy proxy_type s))) = sleeps_holding (trace s) \<and>
     count_list (trace (snd (check_proxy cfg env proxy proxy_type s))) Release + count_list (trace s) Acquire =
       count_list (trace (snd (check_proxy cfg env proxy proxy_type s))) Acquire + count_list (trace s) Release \<and>
     int (count_list (trace (snd (check_proxy cfg env proxy proxy_type s))) Acquire) -
         int (count_list (trace s) Acquire) =
       total_proxies_checked (snd (check_proxy cfg env proxy proxy_type s)) - total_proxies_checked s \<and>
     (permit_protocol (trace s) = Some False \<longrightarrow>
        permit_protocol (trace (snd (check_proxy cfg env proxy proxy_type s))) = Some False) \<and>
     (try_block a proxy proxy_type s0 = (r, s1) \<longrightarrow>
        trace s1 = trace s0 @ new_events s0 s1 \<and>
        hd (new_events s0 s1) = Acquire \<and> last (new_events s0 s1) = Release \<and>
        count_list (new_events s0 s1) Acquire = 1 \<and> count_list (new_events s0 s1) Release = 1 \<and>
        count_list (new_events s0 s1) (Sleep d) = 0) \<and>
     new_events s1 (except_block cfg proxy err s1) =
       [failure_line cfg proxy err, Sleep (retry_delay cfg)]"
proof -
  have "foldl observe (False, 0) (trace s) = (False, sleeps_holding (trace s))"
    using assms by (simp add: permit_held_def sleeps_holding_def prod_eq_iff)
  then have "foldl observe (False, 0) (trace (snd (check_proxy_loop cfg env proxy proxy_type 0 s))) =
      (False, sleeps_holding (trace s))"
    by (rule loop_permit)
  then have counted: "\<not> permit_held (trace (snd (check_proxy cfg env proxy proxy_type s))) \<and>
     sleeps_holding (trace (snd (check_proxy cfg env proxy proxy_type s))) = sleeps_holding (trace s) \<and>
     count_list (trace (snd (check_proxy cfg env proxy proxy_type s))) Release + count_list (trace s) Acquire =
       count_list (trace (snd (check_proxy cfg env proxy proxy_type s))) Acquire + count_list (trace s) Release"
    using loop_release [of cfg env proxy proxy_type 0 s]
    by (simp add: check_proxy_def permit_held_def sleeps_holding_def)
  have per_attempt: "int (count_list (trace (snd (check_proxy cfg env proxy proxy_type s))) Acquire) -
         int (count_list (trace s) Acquire) =
       total_proxies_checked (snd (check_proxy cfg env proxy proxy_type s)) - total_proxies_checked s"
    unfolding check_proxy_def by (rule loop_acquire_per_attempt)
  have protocol: "permit_protocol (trace s) = Some False \<longrightarrow>
        permit_protocol (trace (snd (check_proxy cfg env proxy proxy_type s))) = Some False"
    unfolding check_proxy_def permit_protocol_def by (blast intro: loop_protocol)
  have block: "try_block a proxy proxy_type s0 = (r, s1) \<longrightarrow>
        trace s1 = trace s0 @ new_events s0 s1 \<and>
        hd (new_events s0 s1) = Acquire \<and> last (new_events s0 s1) = Release \<and>
        count_list (new_events s0 s1) Acquire = 1 \<and> count_list (new_events s0 s1) Release = 1 \<and>
        count_list (new_events s0 s1) (Sleep d) = 0"
    using try_block_events [of a proxy proxy_type s0 r s1] by blast
  have handler: "new_events s1 (except_block cfg proxy err s1) =
       [failure_line cfg proxy err, Sleep (retry_delay cfg)]"
    by (rule except_block_events)
  show ?thesis
    using counted per_attempt protocol block handler by blast
qed

theorem permit_held_per_attempt_witness:
  "\<not> permit_held (trace init) \<and>
   permit_protocol (trace init) = Some False \<and>
   try_block timing_out ''1.2.3.4:8080'' ''HTTP'' init =
     (Inl TimeoutError,
      init\<lparr>trace := [Acquire, Get HTTP ''1.2.3.4'' ''8080'' None None, Release]\<rparr>) \<and>
   \<not> permit_held (trace (snd (check_proxy default_config (always timing_out) ''1.2.3.4:8080'' ''HTTP'' init))) \<and>
   sleeps_holding (trace (snd (check_proxy default_config (always timing_out) ''1.2.3.4:8080'' ''HTTP'' init))) =
     sleeps_holding (trace init) \<and>
   int (count_list (trace (snd (check_proxy default_config (always timing_out)
       ''1.2.3.4:8080'' ''HTTP'' init))) Acquire) - int (count_list (trace init) Acquire) =
     total_proxies_checked (snd (check_proxy default_config (always timing_out)
       ''1.2.3.4:8080'' ''HTTP'' init)) - total_proxies_checked init \<and>
   permit_protocol (trace (snd (check_proxy default_config (always timing_out)
       ''1.2.3.4:8080'' ''HTTP'' init))) = Some False \<and>
   hd (new_events init (init\<lparr>trace := [Acquire, Get HTTP ''1.2.3.4'' ''8080'' None None, Release]\<rparr>)) =
     Acquire \<and>
   last (new_events init (init\<lparr>trace := [Acquire, Get HTTP ''1.2.3.4'' ''8080'' None None, Release]\<rparr>)) =
     Release"
proof -
  have h1: "\<not> permit_held (trace init)"
    by (simp add: permit_held_def init_def)
  have h2: "permit_protocol (trace init) = Some False"
    by (simp add: permit_protocol_def init_def)
  have h3: "try_block timing_out ''1.2.3.4:8080'' ''HTTP'' init =
     (Inl TimeoutError,
      init\<lparr>trace := [Acquire, Get HTTP ''1.2.3.4'' ''8080'' None None, Release]\<rparr>)"
    by (simp add: try_block_def timing_out_def init_def emit_def select_proxy_type_def Let_def)
  show ?thesis
    using h1 h2 h3
      permit_held_per_attempt [of init default_config "always timing_out" "''1.2.3.4:8080''" "''HTTP''"
        timing_out init "Inl TimeoutError"
        "init\<lparr>trace := [Acquire, Get HTTP ''1.2.3.4'' ''8080'' None None, Release]\<rparr>"
        "retry_delay default_config" TimeoutError]
    by blast
qed

text \<open>
  C8, as stated, fails: with an elapsed time of 0 the rate is a division by zero, and the
  exception leaves \<open>check_proxy\<close>.
\<close>

theorem rate_divides_by_zero:
  "elapsed at_time_zero = 0 \<and>
   rate at_time_zero 1 = Inl ZeroDivisionError \<and>
   fst (check_proxy default_config (always at_time_zero) ''1.2.3.4:8080'' ''HTTP'' init) =
     Some ZeroDivisionError"
  by (simp add: run_time_zero) (simp add: rate_def at_time_zero_def)

text \<open>
  C8, amended: the rate computation does not tolerate an elapsed time of 0.  It is
  recomputed in the \<open>finally\<close> block of every attempt with no guard: when the elapsed
  time read there is 0, the division raises \<open>ZeroDivisionError\<close>, which leaves
  \<open>check_proxy\<close> after the increment of \<open>total_proxies_checked\<close> and before the rate is
  stored, at whatever attempt and on whatever outcome of the request.
\<close>

theorem rate_unguarded:
  "int retry_count \<le> max_retry cfg \<and> elapsed (env retry_count) = 0 \<longrightarrow>
      fst (check_proxy_loop cfg env proxy proxy_type retry_count s) = Some ZeroDivisionError \<and>
      total_proxies_checked (snd (check_proxy_loop cfg env proxy proxy_type retry_count s)) =
        total_proxies_checked s + 1 \<and>
      proxies_checked_per_minute (snd (check_proxy_loop cfg env proxy proxy_type retry_count s)) =
        proxies_checked_per_minute s"
  by (simp add: loop_time_zero)

theorem rate_unguarded_witness:
  "int 0 \<le> max_retry default_config \<and> elapsed (always at_time_zero 0) = 0 \<and>
   fst (check_proxy_loop default_config (always at_time_zero) ''1.2.3.4:8080'' ''HTTP'' 0 init) =
     Some ZeroDivisionError \<and>
   total_proxies_checked
     (snd (check_proxy_loop default_config (always at_time_zero) ''1.2.3.4:8080'' ''HTTP'' 0 init)) =
     total_proxies_checked init + 1"
proof -
  have h: "int 0 \<le> max_retry default_config \<and> elapsed (always at_time_zero 0) = 0"
    by (simp add: default_config_def always_def at_time_zero_def)
  show ?thesis
    using h
      rate_unguarded [of 0 default_config "always at_time_zero" "''1.2.3.4:8080''" "''HTTP''" init]
    by blast
qed

text \<open>
  C9: a call of \<open>check_proxy\<close> on a descriptor that \<open>read_proxy_file\<close> returned
  appends nothing to the output file or the one line made of the descriptor and a
  newline.  Read back by the rule of \<open>read_proxy_file\<close>, this line is accepted and
  yields the descriptor itself.  A call that reports the retries as exceeded has appended
  nothing.
\<close>

theorem saved_line_round_trip:
  assumes "read_proxy_file fs filepath = Inr proxies" and "proxy \<in> set proxies"
  shows "(good_proxy_file (snd (check_proxy cfg env proxy proxy_type s)) = good_proxy_file s \<or>
          good_proxy_file (snd (check_proxy cfg env proxy proxy_type s)) =
            good_proxy_file s @ [proxy @ [CHR 0x0A]]) \<and>
         keep_line (proxy @ [CHR 0x0A]) = Some proxy \<and>
         accepted (strip (proxy @ [CHR 0x0A])) \<and>
         strip (proxy @ [CHR 0x0A]) = proxy \<and>
         (count_list (trace (snd (check_proxy cfg env proxy proxy_type s))) (Print_exceeded proxy) \<noteq>
            count_list (trace s) (Print_exceeded proxy) \<longrightarrow>
          good_proxy_file (snd (check_proxy cfg env proxy proxy_type s)) = good_proxy_file s)"
proof -
  have "accepted proxy"
    using read_proxy_file_member [OF assms] by simp
  then show ?thesis
    using saved_line_parses [OF assms] loop_file [of cfg env proxy proxy_type 0 s]
    by (simp add: check_proxy_def)
qed

theorem saved_line_round_trip_witness:
  "read_proxy_file (Map.empty(''proxies.txt'' \<mapsto> Text sample_lines)) ''proxies.txt'' =
     Inr [''1.2.3.4:8080'', ''5.6.7.8:1080:user:pass''] \<and>
   keep_line (''1.2.3.4:8080'' @ [CHR 0x0A]) = Some ''1.2.3.4:8080'' \<and>
   count_list (trace (snd (check_proxy default_config (always timing_out) ''1.2.3.4:8080'' ''HTTP'' init)))
      (Print_exceeded ''1.2.3.4:8080'') \<noteq> count_list (trace init) (Print_exceeded ''1.2.3.4:8080'') \<and>
   good_proxy_file (snd (check_proxy default_config (always timing_out) ''1.2.3.4:8080'' ''HTTP'' init)) =
     good_proxy_file init"
proof -
  have h1: "read_proxy_file (Map.empty(''proxies.txt'' \<mapsto> Text sample_lines)) ''proxies.txt'' =
     Inr [''1.2.3.4:8080'', ''5.6.7.8:1080:user:pass'']"
    by (rule read_sample)
  have h2: "''1.2.3.4:8080'' \<in> set [''1.2.3.4:8080'', ''5.6.7.8:1080:user:pass'']"
    by simp
  have h3: "count_list (trace (snd (check_proxy default_config (always timing_out) ''1.2.3.4:8080'' ''HTTP'' init)))
      (Print_exceeded ''1.2.3.4:8080'') \<noteq> count_list (trace init) (Print_exceeded ''1.2.3.4:8080'')"
    by (simp add: run_timing_out) (simp add: init_def)
  show ?thesis
    using h1 h3 saved_line_round_trip [OF h1 h2, of default_config "always timing_out" "''HTTP''" init]
    by blast
qed

text \<open>
  C10: \<open>good_proxies \<le> total_proxies_checked\<close> is preserved by \<open>check_proxy\<close>, and
  it holds in every title that a \<open>finally\<close> block of the call shows: if it holds before
  the call and in the titles so far, it holds after the call and in all titles.
\<close>

theorem good_le_checked:
  assumes "good_proxies s \<le> total_proxies_checked s" and "list_all title_ok (trace s)"
  shows "good_proxies (snd (check_proxy cfg env proxy proxy_type s))
           \<le> total_proxies_checked (snd (check_proxy cfg env proxy proxy_type s)) \<and>
         list_all title_ok (trace (snd (check_proxy cfg env proxy proxy_type s)))"
  unfolding check_proxy_def using assms by (rule loop_counters)

theorem good_le_checked_witness:
  "good_proxies init \<le> total_proxies_checked init \<and> list_all title_ok (trace init) \<and>
   good_proxies (snd (check_proxy default_config (always (responding 200)) ''1.2.3.4:8080'' ''HTTP'' init))
     \<le> total_proxies_checked (snd (check_proxy default_config (always (responding 200))
          ''1.2.3.4:8080'' ''HTTP'' init)) \<and>
   list_all title_ok (trace (snd (check_proxy default_config (always (responding 200))
          ''1.2.3.4:8080'' ''HTTP'' init)))"
proof -
  have h1: "good_proxies init \<le> total_proxies_checked init"
    by (simp add: init_def)
  have h2: "list_all title_ok (trace init)"
    by (simp add: init_def)
  show ?thesis
    using h1 h2 good_le_checked [OF h1 h2, of default_config "always (responding 200)"
      "''1.2.3.4:8080''" "''HTTP''"]
    by blast
qed

end
